theory Spec2Isabelle
  imports Complex_Main "HOL-Library.Char_ord" "HOL-Library.List_Lexorder" "HOL-Library.AList"
begin

section \<open>JavaScript values, errors and results\<close>

text \<open>
  The library is TypeScript running on Node.js. A message payload is an arbitrary
  JavaScript value; the hasher and the deduplicator inspect it dynamically
  (\<^verbatim>\<open>typeof\<close>, \<^verbatim>\<open>instanceof Date\<close>, \<^verbatim>\<open>Buffer.isBuffer\<close>,
  \<^verbatim>\<open>'payload' in message\<close>), so payloads are modelled by a datatype of the values the code
  distinguishes. Conventions of the model:
  \<^item> a \<^verbatim>\<open>number\<close> inside a payload is an integer (\<open>JNum\<close>); TTLs and clock readings
    are rationals (\<open>number\<close>); NaN and the infinities are not represented;
  \<^item> a string is a list of bytes (its UTF-8 encoding);
  \<^item> an object is the list of its own enumerable properties in enumeration order;
  \<^item> a \<^verbatim>\<open>Date\<close> is represented by what the program can observe of it: the text
    \<^verbatim>\<open>toISOString()\<close> returns (\<open>None\<close> for an invalid date, where it throws) and the
    text \<^verbatim>\<open>toString()\<close> returns;
  \<^item> a \<^verbatim>\<open>Buffer\<close> is its byte content;
  \<^item> \<open>JProto fs out\<close> is an object with own properties \<open>fs\<close> whose prototype has a
    \<^verbatim>\<open>serializeBinary\<close> method; \<open>out\<close> is what calling it yields (bytes, or a thrown
    error);
  \<^item> every thrown value is an \<^verbatim>\<open>Error\<close> carrying its message; a computation that may
    throw returns \<open>error + 'a\<close>, with \<open>Inl\<close> for the throw.
\<close>

type_synonym number = rat

datatype error = Error string

type_synonym 'a result = "error + 'a"

datatype jsval =
    JUndefined
  | JNull
  | JBool bool
  | JNum int
  | JStr string
  | JArr "jsval list"
  | JObj "(string \<times> jsval) list"
  | JDate "string option" string
  | JBuffer string
  | JProto "(string \<times> jsval) list" "string result"

type_synonym fields = "(string \<times> jsval) list"

fun typeof :: "jsval \<Rightarrow> string" where
  "typeof JUndefined = ''undefined''"
| "typeof JNull = ''object''"
| "typeof (JBool b) = ''boolean''"
| "typeof (JNum n) = ''number''"
| "typeof (JStr s) = ''string''"
| "typeof v = ''object''"

fun truthy :: "jsval \<Rightarrow> bool" where
  "truthy JUndefined = False"
| "truthy JNull = False"
| "truthy (JBool b) = b"
| "truthy (JNum n) = (n \<noteq> 0)"
| "truthy (JStr s) = (s \<noteq> [])"
| "truthy v = True"

fun isBuffer :: "jsval \<Rightarrow> bool" where
  "isBuffer (JBuffer bs) = True"
| "isBuffer v = False"

fun instanceof_Date :: "jsval \<Rightarrow> bool" where
  "instanceof_Date (JDate d txt) = True"
| "instanceof_Date v = False"

text \<open>Decimal numerals, as \<^verbatim>\<open>String(n)\<close> and \<^verbatim>\<open>JSON.stringify(n)\<close> print integers.\<close>

definition digit_char :: "nat \<Rightarrow> char" where
  "digit_char d = ''0123456789'' ! (d mod 10)"

function show_nat :: "nat \<Rightarrow> string" where
  "show_nat n = (if n < 10 then [digit_char n] else show_nat (n div 10) @ [digit_char (n mod 10)])"
  by pat_completeness auto
termination
  by (relation "measure id") auto

definition show_int :: "int \<Rightarrow> string" where
  "show_int i = (if i < 0 then CHR ''-'' # show_nat (nat (- i)) else show_nat (nat i))"

definition is_digit :: "char \<Rightarrow> bool" where
  "is_digit c = (c \<in> set ''0123456789'')"

definition digit_value :: "char \<Rightarrow> nat" where
  "digit_value c = of_char c - 48"

definition decimal_value :: "string \<Rightarrow> nat" where
  "decimal_value s = foldl (\<lambda>acc c. 10 * acc + digit_value c) 0 s"

text \<open>
  An array index is a canonical decimal numeral below \<open>2^32 - 1\<close>. An object enumerates
  its array-index keys first, in ascending numeric order, and its other string keys after
  them in insertion order; \<open>set_property\<close> is the assignment \<^verbatim>\<open>result[key] = value\<close>
  on a plain object. (A key named \<^verbatim>\<open>__proto__\<close> is not treated specially.)
\<close>

definition is_array_index :: "string \<Rightarrow> bool" where
  "is_array_index k = (k \<noteq> [] \<and> list_all is_digit k \<and> (k = ''0'' \<or> hd k \<noteq> CHR ''0'')
     \<and> decimal_value k < 4294967295)"

fun insert_index :: "string \<Rightarrow> jsval \<Rightarrow> fields \<Rightarrow> fields" where
  "insert_index k v [] = [(k, v)]"
| "insert_index k v ((k', v') # fs) =
     (if is_array_index k' \<and> decimal_value k' < decimal_value k
      then (k', v') # insert_index k v fs
      else (k, v) # (k', v') # fs)"

definition set_property :: "string \<Rightarrow> jsval \<Rightarrow> fields \<Rightarrow> fields" where
  "set_property k v fs =
     (if map_of fs k \<noteq> None then AList.update k v fs
      else if is_array_index k then insert_index k v fs
      else fs @ [(k, v)])"

text \<open>\<^verbatim>\<open>Object.keys(obj)\<close> and the property read \<^verbatim>\<open>obj[key]\<close> (own properties).\<close>

fun Object_keys :: "jsval \<Rightarrow> string list" where
  "Object_keys (JObj fs) = map fst fs"
| "Object_keys (JProto fs out) = map fst fs"
| "Object_keys (JBuffer bs) = map show_nat [0 ..< length bs]"
| "Object_keys (JArr xs) = map show_nat [0 ..< length xs]"
| "Object_keys v = []"

fun get_property :: "jsval \<Rightarrow> string \<Rightarrow> jsval" where
  "get_property (JObj fs) k = (case map_of fs k of Some v \<Rightarrow> v | None \<Rightarrow> JUndefined)"
| "get_property (JProto fs out) k = (case map_of fs k of Some v \<Rightarrow> v | None \<Rightarrow> JUndefined)"
| "get_property (JBuffer bs) k =
     (if is_array_index k \<and> decimal_value k < length bs
      then JNum (of_char (bs ! decimal_value k)) else JUndefined)"
| "get_property (JArr xs) k =
     (if is_array_index k \<and> decimal_value k < length xs
      then xs ! decimal_value k else JUndefined)"
| "get_property v k = JUndefined"

text \<open>The operator \<^verbatim>\<open>key in obj\<close>, for the objects of the model.\<close>

fun has_property :: "string \<Rightarrow> jsval \<Rightarrow> bool" where
  "has_property k (JObj fs) = (map_of fs k \<noteq> None)"
| "has_property k (JProto fs out) = (map_of fs k \<noteq> None)"
| "has_property k v = False"

section \<open>The hasher (src/lib/hasher/index.ts)\<close>

text \<open>
  \<open>normalizeObject\<close> follows the source statement by statement: primitives and
  \<^verbatim>\<open>null\<close> are returned as they are, an array is mapped element by element, and for
  any other object the loop over \<^verbatim>\<open>Object.keys(obj).sort()\<close> builds a fresh object.
  \<open>normalize_loop obj keys result\<close> is that loop with \<open>keys\<close> still to visit.
  \<^verbatim>\<open>toISOString()\<close> throws a RangeError on an invalid date.
\<close>

function (sequential) normalizeObject :: "jsval \<Rightarrow> jsval result"
  and normalize_map :: "jsval list \<Rightarrow> (jsval list) result"
  and normalize_loop :: "jsval \<Rightarrow> string list \<Rightarrow> fields \<Rightarrow> fields result"
where
  "normalizeObject obj =
     (if obj = JNull \<or> typeof obj \<noteq> ''object'' then Inr obj
      else case obj of
        JArr xs \<Rightarrow> (case normalize_map xs of Inl e \<Rightarrow> Inl e | Inr ys \<Rightarrow> Inr (JArr ys))
      | _ \<Rightarrow> (case normalize_loop obj (sort (Object_keys obj)) [] of
                Inl e \<Rightarrow> Inl e | Inr result \<Rightarrow> Inr (JObj result)))"
| "normalize_map [] = Inr []"
| "normalize_map (item # items) =
     (case normalizeObject item of
        Inl e \<Rightarrow> Inl e
      | Inr y \<Rightarrow> (case normalize_map items of Inl e \<Rightarrow> Inl e | Inr ys \<Rightarrow> Inr (y # ys)))"
| "normalize_loop obj [] result = Inr result"
| "normalize_loop obj (key # keys) result =
     (let val = get_property obj key in
      if instanceof_Date val then
        (case val of
           JDate (Some t) txt \<Rightarrow> normalize_loop obj keys (set_property key (JStr t) result)
         | _ \<Rightarrow> Inl (Error ''Invalid time value''))
      else if truthy val \<and> typeof val = ''object'' \<and> \<not> isBuffer val then
        (case normalizeObject val of
           Inl e \<Rightarrow> Inl e
         | Inr v \<Rightarrow> normalize_loop obj keys (set_property key v result))
      else if val \<noteq> JUndefined then normalize_loop obj keys (set_property key val result)
      else normalize_loop obj keys result)"
  by pat_completeness auto
termination
proof -
  have in_fields: "size v < Suc (size_list (size_prod (\<lambda>_. 0) size) fs)"
    if "map_of fs k = Some v" for fs :: fields and k v
    using that by (induction fs) (auto split: if_splits)
  have in_items: "size (xs ! i) < Suc (size_list size xs)"
    if "i < length xs" for xs :: "jsval list" and i
    using that size_list_estimation' [of "xs ! i" xs "size (xs ! i)" size] by simp
  have smaller: "size (get_property obj k) < size obj"
    if "typeof (get_property obj k) = ''object''" for obj k
  proof (cases obj)
    case (JObj fs)
    with that show ?thesis
      by (auto split: option.splits dest: in_fields)
  next
    case (JArr xs)
    with that show ?thesis
      by (auto dest: in_items split: if_splits)
  next
    case (JProto fs out)
    with that show ?thesis
      by (auto split: option.splits dest: in_fields)
  qed (use that in \<open>auto split: if_splits\<close>)
  show ?thesis
    by (relation "measures
       [\<lambda>x. case x of Inl obj \<Rightarrow> size obj
                | Inr (Inl xs) \<Rightarrow> size_list size xs
                | Inr (Inr (obj, keys, result)) \<Rightarrow> size obj,
        \<lambda>x. case x of Inl obj \<Rightarrow> 1 | Inr y \<Rightarrow> 0,
        \<lambda>x. case x of Inr (Inr (obj, keys, result)) \<Rightarrow> length keys | _ \<Rightarrow> 0]")
      (simp_all add: smaller)
qed

declare normalizeObject.simps [simp del]

text \<open>
  \<^verbatim>\<open>JSON.stringify\<close>. \<open>stringify v = None\<close> stands for the result \<^verbatim>\<open>undefined\<close>; an
  array prints such an element as \<^verbatim>\<open>null\<close> and an object leaves such a property out.
  A \<^verbatim>\<open>Date\<close> and a \<^verbatim>\<open>Buffer\<close> are printed through their \<^verbatim>\<open>toJSON\<close> methods.
\<close>

definition hex_digit :: "nat \<Rightarrow> char" where
  "hex_digit d = ''0123456789abcdef'' ! (d mod 16)"

definition escape_char :: "char \<Rightarrow> string" where
  "escape_char c =
     (if c = CHR 0x22 then [CHR 0x5C, CHR 0x22]
      else if c = CHR 0x5C then [CHR 0x5C, CHR 0x5C]
      else if c = CHR 0x08 then [CHR 0x5C, CHR ''b'']
      else if c = CHR 0x0C then [CHR 0x5C, CHR ''f'']
      else if c = CHR 0x0A then [CHR 0x5C, CHR ''n'']
      else if c = CHR 0x0D then [CHR 0x5C, CHR ''r'']
      else if c = CHR 0x09 then [CHR 0x5C, CHR ''t'']
      else if (of_char c :: nat) < 32
        then [CHR 0x5C, CHR ''u'', CHR ''0'', CHR ''0'',
              hex_digit (of_char c div 16), hex_digit (of_char c mod 16)]
      else [c])"

definition quote :: "string \<Rightarrow> string" where
  "quote s = CHR 0x22 # concat (map escape_char s) @ [CHR 0x22]"

fun join :: "string \<Rightarrow> string list \<Rightarrow> string" where
  "join sep [] = []"
| "join sep [x] = x"
| "join sep (x # y # ys) = x @ sep @ join sep (y # ys)"

fun stringify :: "jsval \<Rightarrow> string option"
  and stringify_items :: "jsval list \<Rightarrow> string list"
  and stringify_props :: "fields \<Rightarrow> string list"
where
  "stringify JUndefined = None"
| "stringify JNull = Some ''null''"
| "stringify (JBool b) = Some (if b then ''true'' else ''false'')"
| "stringify (JNum n) = Some (show_int n)"
| "stringify (JStr s) = Some (quote s)"
| "stringify (JArr xs) = Some (''['' @ join '','' (stringify_items xs) @ '']'')"
| "stringify (JObj fs) = Some (''{'' @ join '','' (stringify_props fs) @ ''}'')"
| "stringify (JDate d txt) = Some (case d of None \<Rightarrow> ''null'' | Some t \<Rightarrow> quote t)"
| "stringify (JBuffer bs) =
     Some (''{'' @ quote ''type'' @ '':'' @ quote ''Buffer'' @ '','' @ quote ''data'' @ '':[''
           @ join '','' (map (\<lambda>c. show_nat (of_char c)) bs) @ '']}'')"
| "stringify (JProto fs out) = Some (''{'' @ join '','' (stringify_props fs) @ ''}'')"
| "stringify_items [] = []"
| "stringify_items (x # xs) =
     (case stringify x of None \<Rightarrow> ''null'' | Some t \<Rightarrow> t) # stringify_items xs"
| "stringify_props [] = []"
| "stringify_props ((k, v) # fs) =
     (case stringify v of
        None \<Rightarrow> stringify_props fs
      | Some t \<Rightarrow> (quote k @ '':'' @ t) # stringify_props fs)"

text \<open>
  The digest \<^verbatim>\<open>createHash('sha256').update(data).digest('hex')\<close> belongs to Node's
  crypto module, not to this library: every definition that hashes takes it as the
  parameter \<open>sha256\<close>. Handing it \<^verbatim>\<open>undefined\<close> throws a TypeError.
\<close>

definition sha256_of :: "(string \<Rightarrow> string) \<Rightarrow> string option \<Rightarrow> string result" where
  "sha256_of sha256 data =
     (case data of
        None \<Rightarrow> Inl (Error ''The data argument must be of type string'')
      | Some s \<Rightarrow> Inr (sha256 s))"

definition hashJson :: "(string \<Rightarrow> string) \<Rightarrow> jsval \<Rightarrow> string result" where
  "hashJson sha256 obj =
     (if obj = JUndefined then Inl (Error ''Cannot hash undefined value'')
      else if obj = JNull \<or> typeof obj \<noteq> ''object'' then sha256_of sha256 (stringify obj)
      else case normalizeObject obj of
             Inl e \<Rightarrow> Inl e
           | Inr normalized \<Rightarrow> sha256_of sha256 (stringify normalized))"

definition hashProtobuf :: "(string \<Rightarrow> string) \<Rightarrow> jsval \<Rightarrow> string result" where
  "hashProtobuf sha256 message =
     (if \<not> truthy message then Inl (Error ''Cannot hash null or undefined Protobuf message'')
      else case message of
        JProto fs out \<Rightarrow>
          (case out of
             Inl (Error msg) \<Rightarrow> Inl (Error (''Failed to serialize Protobuf message: '' @ msg))
           | Inr binary \<Rightarrow> Inr (sha256 binary))
      | _ \<Rightarrow> Inl (Error ''Invalid Protobuf message: missing serializeBinary method''))"

text \<open>The conversion to a string that a template literal applies to each value.\<close>

fun ToString :: "jsval \<Rightarrow> string"
  and ToString_items :: "jsval list \<Rightarrow> string list"
where
  "ToString JUndefined = ''undefined''"
| "ToString JNull = ''null''"
| "ToString (JBool b) = (if b then ''true'' else ''false'')"
| "ToString (JNum n) = show_int n"
| "ToString (JStr s) = s"
| "ToString (JArr xs) = join '','' (ToString_items xs)"
| "ToString (JObj fs) = ''[object Object]''"
| "ToString (JDate d txt) = txt"
| "ToString (JBuffer bs) = bs"
| "ToString (JProto fs out) = ''[object Object]''"
| "ToString_items [] = []"
| "ToString_items (x # xs) =
     (if x = JNull \<or> x = JUndefined then [] else ToString x) # ToString_items xs"

text \<open>
  \<open>hashMessage\<close>: the parameter \<open>format\<close> defaults to \<^verbatim>\<open>'json'\<close> when the argument is
  \<^verbatim>\<open>undefined\<close>; whatever the switch throws is caught and thrown again as a new Error
  whose message starts with \<^verbatim>\<open>Failed to hash message:\<close>.
\<close>

definition hashMessage :: "(string \<Rightarrow> string) \<Rightarrow> jsval \<Rightarrow> jsval \<Rightarrow> string result" where
  "hashMessage sha256 message format_arg =
     (let format = (if format_arg = JUndefined then JStr ''json'' else format_arg);
          r = (if format = JStr ''json'' then hashJson sha256 message
               else if format = JStr ''protobuf'' then hashProtobuf sha256 message
               else Inl (Error (''Unsupported message format: '' @ ToString format)))
      in case r of
           Inl (Error msg) \<Rightarrow> Inl (Error (''Failed to hash message: '' @ msg))
         | Inr h \<Rightarrow> Inr h)"

text \<open>
  Deep equality of two payloads up to the order of object fields, as the specification
  words it: arrays are compared element by element in order; two objects are equal when
  they have the same field names, each once, and equal values under every name, in
  whatever order the fields stand; all other values are compared as they are.
  \<open>is_container\<close> tells the values that have parts.
\<close>

fun deep_equal :: "jsval \<Rightarrow> jsval \<Rightarrow> bool"
  and deep_equal_items :: "jsval list \<Rightarrow> jsval list \<Rightarrow> bool"
  and fields_within :: "fields \<Rightarrow> fields \<Rightarrow> bool"
where
  "deep_equal (JArr xs) (JArr ys) = deep_equal_items xs ys"
| "deep_equal (JObj fs) (JObj gs) =
     (distinct (map fst fs) \<and> distinct (map fst gs) \<and> length fs = length gs \<and> fields_within fs gs)"
| "deep_equal (JProto fs out) (JProto gs out') =
     (distinct (map fst fs) \<and> distinct (map fst gs) \<and> length fs = length gs \<and> fields_within fs gs
      \<and> out = out')"
| "deep_equal a b = (a = b)"
| "deep_equal_items [] [] = True"
| "deep_equal_items (x # xs) (y # ys) = (deep_equal x y \<and> deep_equal_items xs ys)"
| "deep_equal_items xs ys = False"
| "fields_within [] gs = True"
| "fields_within ((k, v) # fs) gs =
     ((case map_of gs k of None \<Rightarrow> False | Some w \<Rightarrow> deep_equal v w) \<and> fields_within fs gs)"

fun is_container :: "jsval \<Rightarrow> bool" where
  "is_container (JArr xs) = True"
| "is_container (JObj fs) = True"
| "is_container (JProto fs out) = True"
| "is_container v = False"

section \<open>The cache contract and the in-process backend (src/lib/cache/base.ts, memory.ts)\<close>

record DeduplicatorOptions =
  ttl :: number
  namespace :: string
  debug :: bool

text \<open>
  The interface \<^verbatim>\<open>Cache\<close>: a backend acting on a state \<open>'s\<close>. Every operation returns
  what the awaited promise settles to (\<open>Inl\<close> for a rejection) and the state it leaves.
  \<^verbatim>\<open>clear\<close> is optional.
\<close>

record 's Cache =
  cache_has :: "string \<Rightarrow> 's \<Rightarrow> bool result \<times> 's"
  cache_set :: "string \<Rightarrow> number \<Rightarrow> 's \<Rightarrow> unit result \<times> 's"
  cache_delete :: "string \<Rightarrow> 's \<Rightarrow> unit result \<times> 's"
  cache_clear :: "('s \<Rightarrow> unit result \<times> 's) option"

definition BaseCache_options :: "number option \<Rightarrow> string option \<Rightarrow> bool option \<Rightarrow> DeduplicatorOptions" where
  "BaseCache_options ttl_opt namespace_opt debug_opt =
     \<lparr>ttl = (case ttl_opt of None \<Rightarrow> 300 | Some t \<Rightarrow> t),
      namespace = (case namespace_opt of None \<Rightarrow> ''ts-dedup'' | Some n \<Rightarrow> n),
      debug = (case debug_opt of None \<Rightarrow> False | Some d \<Rightarrow> d)\<rparr>"

definition getNamespacedKey :: "DeduplicatorOptions \<Rightarrow> string \<Rightarrow> string" where
  "getNamespacedKey opts key = namespace opts @ '':'' @ key"

text \<open>
  The state of a \<^verbatim>\<open>MemoryCache\<close> is its \<^verbatim>\<open>Map\<close> (\<open>m_cache\<close>, an association list
  in insertion order) together with the part of the runtime it uses: the clock read by
  \<^verbatim>\<open>Date.now()\<close> (\<open>now\<close>, in milliseconds) and the pending \<^verbatim>\<open>setTimeout\<close> callbacks
  (\<open>timers\<close>). A timer handle is a number; a pending timer records when it is due and the
  namespaced key its callback \<^verbatim>\<open>() => this.cache.delete(namespacedKey)\<close> has captured.
  \<^verbatim>\<open>setTimeout\<close> is taken at its contract: the callback runs once, no earlier than
  \<open>delay\<close> milliseconds after the call, unless \<^verbatim>\<open>clearTimeout\<close> cancels it first
  (Node keeps this contract for delays up to \<open>2^31 - 1\<close> milliseconds; longer ones are
  outside the model).
\<close>

record CacheEntry =
  expires :: number
  timeout :: nat

record MemoryCache =
  m_options :: DeduplicatorOptions
  m_cache :: "(string \<times> CacheEntry) list"
  timers :: "(nat \<times> number \<times> string) list"
  next_timer :: nat
  now :: number

definition createMemoryCache :: "DeduplicatorOptions \<Rightarrow> number \<Rightarrow> MemoryCache" where
  "createMemoryCache opts t0 =
     \<lparr>m_options = opts, m_cache = [], timers = [], next_timer = 0, now = t0\<rparr>"

definition setTimeout :: "string \<Rightarrow> number \<Rightarrow> MemoryCache \<Rightarrow> nat \<times> MemoryCache" where
  "setTimeout key delay s =
     (next_timer s,
      s\<lparr>timers := timers s @ [(next_timer s, now s + delay, key)],
        next_timer := Suc (next_timer s)\<rparr>)"

definition clearTimeout :: "nat \<Rightarrow> MemoryCache \<Rightarrow> MemoryCache" where
  "clearTimeout t s = s\<lparr>timers := AList.delete t (timers s)\<rparr>"

definition memory_delete :: "string \<Rightarrow> MemoryCache \<Rightarrow> MemoryCache" where
  "memory_delete key s =
     (let namespacedKey = getNamespacedKey (m_options s) key in
      case map_of (m_cache s) namespacedKey of
        None \<Rightarrow> s
      | Some entry \<Rightarrow>
          (clearTimeout (timeout entry) s)
            \<lparr>m_cache := AList.delete namespacedKey (m_cache s)\<rparr>)"

definition memory_has :: "string \<Rightarrow> MemoryCache \<Rightarrow> bool \<times> MemoryCache" where
  "memory_has key s =
     (let namespacedKey = getNamespacedKey (m_options s) key in
      case map_of (m_cache s) namespacedKey of
        None \<Rightarrow> (False, s)
      | Some entry \<Rightarrow>
          if expires entry < now s then (False, memory_delete key s) else (True, s))"

definition memory_set :: "string \<Rightarrow> number \<Rightarrow> MemoryCache \<Rightarrow> MemoryCache" where
  "memory_set key ttl_arg s =
     (let namespacedKey = getNamespacedKey (m_options s) key;
          expires_at = now s + ttl_arg * 1000;
          s1 = memory_delete key s;
          (handle, s2) = setTimeout namespacedKey (ttl_arg * 1000) s1
      in s2\<lparr>m_cache :=
              AList.update namespacedKey \<lparr>expires = expires_at, timeout = handle\<rparr> (m_cache s2)\<rparr>)"

definition memory_clear :: "MemoryCache \<Rightarrow> MemoryCache" where
  "memory_clear s =
     (fold (\<lambda>entry. clearTimeout (timeout entry)) (map snd (m_cache s)) s)\<lparr>m_cache := []\<rparr>"

text \<open>
  What the runtime does between two calls: the clock moves forward, and a pending timer
  that is due may fire, running its callback (\<^verbatim>\<open>Map.delete\<close> of the captured key).
  Timers may fire late and in any order; a timer that is not pending or not yet due does
  nothing.
\<close>

datatype event = Advance number | Fire nat

fun occur :: "event \<Rightarrow> MemoryCache \<Rightarrow> MemoryCache" where
  "occur (Advance t) s = s\<lparr>now := max (now s) t\<rparr>"
| "occur (Fire h) s =
     (case map_of (timers s) h of
        None \<Rightarrow> s
      | Some (due, key) \<Rightarrow>
          if due \<le> now s
          then s\<lparr>timers := AList.delete h (timers s), m_cache := AList.delete key (m_cache s)\<rparr>
          else s)"

text \<open>A history of a cache: calls of its four operations and runtime events, in order.\<close>

datatype action = Has string | Set string number | Delete string | Clear | Runtime event

fun perform :: "action \<Rightarrow> MemoryCache \<Rightarrow> MemoryCache" where
  "perform (Has key) s = snd (memory_has key s)"
| "perform (Set key t) s = memory_set key t s"
| "perform (Delete key) s = memory_delete key s"
| "perform Clear s = memory_clear s"
| "perform (Runtime ev) s = occur ev s"

definition history :: "action list \<Rightarrow> MemoryCache \<Rightarrow> MemoryCache" where
  "history acts s = fold perform acts s"

text \<open>\<^verbatim>\<open>MemoryCache\<close> as an implementation of the interface; none of its promises rejects.\<close>

definition MemoryCache_backend :: "MemoryCache Cache" where
  "MemoryCache_backend =
     \<lparr>cache_has = (\<lambda>key s. (Inr (fst (memory_has key s)), snd (memory_has key s))),
      cache_set = (\<lambda>key t s. (Inr (), memory_set key t s)),
      cache_delete = (\<lambda>key s. (Inr (), memory_delete key s)),
      cache_clear = Some (\<lambda>s. (Inr (), memory_clear s))\<rparr>"



section \<open>The networked backend (src/lib/cache/redis.ts)\<close>

text \<open>
  The ioredis client and the server behind it are not part of the library. The commands
  the class issues are the fields of \<open>'w RedisClient\<close>, acting on a state \<open>'w\<close> of
  connection and server; each may reject. \<open>cmd_scanStream\<close> yields the arrays of keys
  the stream emits as \<^verbatim>\<open>data\<close> events, followed by \<^verbatim>\<open>end\<close> (\<open>None\<close>) or by an
  \<^verbatim>\<open>error\<close> event; \<open>cmd_exec\<close> sends the \<^verbatim>\<open>del\<close> commands queued on the pipeline.
\<close>

record 'w RedisClient =
  cmd_exists :: "string \<Rightarrow> 'w \<Rightarrow> int result \<times> 'w"
  cmd_set :: "string \<Rightarrow> string \<Rightarrow> int \<Rightarrow> 'w \<Rightarrow> unit result \<times> 'w"
  cmd_del :: "string \<Rightarrow> 'w \<Rightarrow> int result \<times> 'w"
  cmd_scanStream :: "string \<Rightarrow> nat \<Rightarrow> 'w \<Rightarrow> (string list list \<times> error option) \<times> 'w"
  cmd_exec :: "string list list \<Rightarrow> 'w \<Rightarrow> unit result \<times> 'w"
  cmd_quit :: "'w \<Rightarrow> unit result \<times> 'w"

record RedisCache =
  r_options :: DeduplicatorOptions
  prefix :: string
  defaultTtl :: number
  isConnected :: bool

text \<open>The constructor; \<^verbatim>\<open>prefix.replace(/:?$/, '')\<close> drops one trailing colon.\<close>

definition drop_trailing_colon :: "string \<Rightarrow> string" where
  "drop_trailing_colon p = (if p \<noteq> [] \<and> last p = CHR '':'' then butlast p else p)"

definition new_RedisCache :: "string option \<Rightarrow> number option \<Rightarrow> bool option \<Rightarrow> RedisCache" where
  "new_RedisCache prefix_opt ttl_opt debug_opt =
     (let opts = BaseCache_options ttl_opt
                   (Some (case prefix_opt of
                            None \<Rightarrow> ''ts-dedup''
                          | Some p \<Rightarrow> if p \<noteq> [] then drop_trailing_colon p else ''ts-dedup''))
                   debug_opt
      in \<lparr>r_options = opts,
          prefix = (if namespace opts \<noteq> [] \<and> last (namespace opts) = CHR '':''
                    then namespace opts else namespace opts @ '':''),
          defaultTtl = ttl opts,
          isConnected = True\<rparr>)"

text \<open>The handlers of the transport's \<^verbatim>\<open>connect\<close> and \<^verbatim>\<open>end\<close> events.\<close>

definition on_connect :: "RedisCache \<Rightarrow> RedisCache" where
  "on_connect rc = rc\<lparr>isConnected := True\<rparr>"

definition on_end :: "RedisCache \<Rightarrow> RedisCache" where
  "on_end rc = rc\<lparr>isConnected := False\<rparr>"

text \<open>\<open>getKey\<close>; \<^verbatim>\<open>replace(/::+/g, ':')\<close> turns every run of colons into one colon.\<close>

fun collapse_colons :: "string \<Rightarrow> string" where
  "collapse_colons (a # b # rest) =
     (if a = CHR '':'' \<and> b = CHR '':'' then collapse_colons (b # rest)
      else a # collapse_colons (b # rest))"
| "collapse_colons s = s"

definition getKey :: "RedisCache \<Rightarrow> string \<Rightarrow> string result" where
  "getKey rc key =
     (if key = [] then Inl (Error ''Cache key cannot be empty'')
      else Inr (collapse_colons (prefix rc @ key)))"

definition redis_has :: "'w RedisClient \<Rightarrow> string \<Rightarrow> RedisCache \<times> 'w \<Rightarrow> bool \<times> RedisCache \<times> 'w" where
  "redis_has client key st =
     (case st of (rc, w) \<Rightarrow>
        if \<not> isConnected rc then (False, rc, w)
        else case getKey rc key of
          Inl e \<Rightarrow> (False, rc, w)
        | Inr cacheKey \<Rightarrow>
            (case cmd_exists client cacheKey w of
               (Inl e, w') \<Rightarrow> (False, rc, w')
             | (Inr res, w') \<Rightarrow> (res = 1, rc, w')))"

text \<open>\<open>redis_set\<close>: the argument \<open>ttl_arg = None\<close> is a call that leaves \<^verbatim>\<open>ttl\<close> out.\<close>

definition redis_set ::
  "'w RedisClient \<Rightarrow> string \<Rightarrow> number option \<Rightarrow> RedisCache \<times> 'w \<Rightarrow> unit result \<times> RedisCache \<times> 'w" where
  "redis_set client key ttl_arg st =
     (case st of (rc, w) \<Rightarrow>
        let ttl_val = (case ttl_arg of None \<Rightarrow> defaultTtl rc | Some t \<Rightarrow> t) in
        if key = [] then (Inl (Error ''Cache key cannot be empty''), rc, w)
        else if ttl_val \<le> 0 then (Inl (Error ''TTL must be greater than 0''), rc, w)
        else if \<not> isConnected rc then (Inr (), rc, w)
        else case getKey rc key of
          Inl e \<Rightarrow> (Inl e, rc, w)
        | Inr cacheKey \<Rightarrow>
            (let ttlSeconds = max 1 \<lfloor>ttl_val\<rfloor> in
             case cmd_set client cacheKey ''1'' ttlSeconds w of
               (Inl e, w') \<Rightarrow> (Inl e, rc, w')
             | (Inr u, w') \<Rightarrow> (Inr (), rc, w')))"

definition redis_delete :: "'w RedisClient \<Rightarrow> string \<Rightarrow> RedisCache \<times> 'w \<Rightarrow> unit result \<times> RedisCache \<times> 'w" where
  "redis_delete client key st =
     (case st of (rc, w) \<Rightarrow>
        if key = [] then (Inr (), rc, w)
        else if \<not> isConnected rc then (Inr (), rc, w)
        else case getKey rc key of
          Inl e \<Rightarrow> (Inr (), rc, w)
        | Inr cacheKey \<Rightarrow>
            (case cmd_del client cacheKey w of
               (Inl e, w') \<Rightarrow> (Inr (), rc, w')
             | (Inr n, w') \<Rightarrow> (Inr (), rc, w')))"

text \<open>
  \<open>clearWithCount\<close>. \<open>on_data\<close> is the handler of a \<^verbatim>\<open>data\<close> event, acting on the
  commands queued on the pipeline, \<^verbatim>\<open>keysToDelete\<close> and \<^verbatim>\<open>deletedCount\<close>; the
  handler of \<^verbatim>\<open>end\<close> queues what is left and runs the pipeline when anything was
  queued. An \<^verbatim>\<open>error\<close> event, or a failing \<^verbatim>\<open>exec\<close>, rejects the promise.
\<close>

definition on_data :: "string list \<Rightarrow> string list list \<times> string list \<times> nat \<Rightarrow> string list list \<times> string list \<times> nat" where
  "on_data keys acc =
     (case acc of (queued, keysToDelete, deletedCount) \<Rightarrow>
        if keys = [] then acc
        else let keysToDelete' = keysToDelete @ keys in
          if length keysToDelete' \<ge> 100
          then (queued @ [keysToDelete'], [], deletedCount + length keysToDelete')
          else (queued, keysToDelete', deletedCount))"

definition clearWithCount :: "'w RedisClient \<Rightarrow> RedisCache \<times> 'w \<Rightarrow> nat result \<times> RedisCache \<times> 'w" where
  "clearWithCount client st =
     (case st of (rc, w) \<Rightarrow>
        if \<not> isConnected rc then (Inr 0, rc, w)
        else case cmd_scanStream client (prefix rc @ ''*'') 100 w of
          ((chunks, Some e), w1) \<Rightarrow> (Inl e, rc, w1)
        | ((chunks, None), w1) \<Rightarrow>
            (case fold on_data chunks ([], [], 0) of (queued, keysToDelete, deletedCount) \<Rightarrow>
               let queued' = (if keysToDelete \<noteq> [] then queued @ [keysToDelete] else queued);
                   deletedCount' = (if keysToDelete \<noteq> [] then deletedCount + length keysToDelete
                                    else deletedCount)
               in if deletedCount' > 0
                  then (case cmd_exec client queued' w1 of
                          (Inl e, w2) \<Rightarrow> (Inl e, rc, w2)
                        | (Inr u, w2) \<Rightarrow> (Inr deletedCount', rc, w2))
                  else (Inr deletedCount', rc, w1)))"

definition redis_clear :: "'w RedisClient \<Rightarrow> RedisCache \<times> 'w \<Rightarrow> unit result \<times> RedisCache \<times> 'w" where
  "redis_clear client st =
     (if \<not> isConnected (fst st) then (Inr (), st)
      else case clearWithCount client st of
        (Inl e, st') \<Rightarrow> (Inr (), st')
      | (Inr n, st') \<Rightarrow> (Inr (), st'))"

definition disconnect :: "'w RedisClient \<Rightarrow> RedisCache \<times> 'w \<Rightarrow> bool \<times> RedisCache \<times> 'w" where
  "disconnect client st =
     (case st of (rc, w) \<Rightarrow>
        if \<not> isConnected rc then (True, rc, w)
        else case cmd_quit client w of
          (Inl e, w') \<Rightarrow> (False, rc, w')
        | (Inr u, w') \<Rightarrow> (True, rc\<lparr>isConnected := False\<rparr>, w'))"

text \<open>\<^verbatim>\<open>RedisCache\<close> as an implementation of the interface.\<close>

definition RedisCache_backend :: "'w RedisClient \<Rightarrow> (RedisCache \<times> 'w) Cache" where
  "RedisCache_backend client =
     \<lparr>cache_has = (\<lambda>key st. (Inr (fst (redis_has client key st)), snd (redis_has client key st))),
      cache_set = (\<lambda>key t st. redis_set client key (Some t) st),
      cache_delete = (\<lambda>key st. redis_delete client key st),
      cache_clear = Some (\<lambda>st. redis_clear client st)\<rparr>"

text \<open>
  A client to run the backend on, in the manner of the mock the repository's tests use:
  a server holding keys with their expiry in seconds, behind a connection that is up or
  down. While the connection is down every command rejects.
\<close>

record StubServer =
  stored :: "(string \<times> int) list"
  up :: bool

definition closed_error :: error where
  "closed_error = Error ''Connection is closed.''"

definition matches :: "string \<Rightarrow> string \<Rightarrow> bool" where
  "matches pattern key = (take (length pattern - 1) key = butlast pattern)"

definition stub_client :: "StubServer RedisClient" where
  "stub_client =
     \<lparr>cmd_exists = (\<lambda>key w. if up w then (Inr (if map_of (stored w) key \<noteq> None then 1 else 0), w)
                             else (Inl closed_error, w)),
      cmd_set = (\<lambda>key v secs w. if up w then (Inr (), w\<lparr>stored := AList.update key secs (stored w)\<rparr>)
                                else (Inl closed_error, w)),
      cmd_del = (\<lambda>key w. if up w
                          then (Inr (if map_of (stored w) key \<noteq> None then 1 else 0),
                                w\<lparr>stored := AList.delete key (stored w)\<rparr>)
                          else (Inl closed_error, w)),
      cmd_scanStream = (\<lambda>pattern n w. if up w
                          then (([filter (matches pattern) (map fst (stored w))], None), w)
                          else (([], Some closed_error), w)),
      cmd_exec = (\<lambda>queued w. if up w
                          then (Inr (), w\<lparr>stored := filter (\<lambda>kv. fst kv \<notin> set (concat queued)) (stored w)\<rparr>)
                          else (Inl closed_error, w)),
      cmd_quit = (\<lambda>w. (Inr (), w\<lparr>up := False\<rparr>))\<rparr>"

section \<open>The deduplicator (src/lib/deduplicator.ts)\<close>

record 's Deduplicator =
  cache :: "'s Cache"
  options :: DeduplicatorOptions

text \<open>The test by which \<open>normalizeMessage\<close> takes its argument for a message envelope.\<close>

definition is_envelope :: "jsval \<Rightarrow> bool" where
  "is_envelope message = (truthy message \<and> typeof message = ''object'' \<and> has_property ''payload'' message)"

definition normalizeMessage :: "jsval \<Rightarrow> jsval" where
  "normalizeMessage message =
     (if truthy message \<and> typeof message = ''object'' \<and> has_property ''payload'' message
      then message
      else JObj [(''payload'', message), (''format'', JStr ''json'')])"

definition getCacheKey :: "(string \<Rightarrow> string) \<Rightarrow> 's Deduplicator \<Rightarrow> jsval \<Rightarrow> string result" where
  "getCacheKey sha256 d message =
     (if truthy (get_property message ''deduplicationKey'')
      then Inr (namespace (options d) @ '':'' @ ToString (get_property message ''deduplicationKey''))
      else case hashMessage sha256 (get_property message ''payload'') (get_property message ''format'') of
             Inl e \<Rightarrow> Inl e
           | Inr h \<Rightarrow> Inr (namespace (options d) @ '':'' @ h))"

text \<open>
  \<open>isDuplicate\<close>: the key is derived before the \<^verbatim>\<open>try\<close> block; inside it, a rejection
  of \<^verbatim>\<open>has\<close> or of \<^verbatim>\<open>set\<close> reaches the \<^verbatim>\<open>catch\<close> clause, which returns
  \<^verbatim>\<open>false\<close>.
\<close>

definition isDuplicate :: "(string \<Rightarrow> string) \<Rightarrow> 's Deduplicator \<Rightarrow> jsval \<Rightarrow> 's \<Rightarrow> bool result \<times> 's" where
  "isDuplicate sha256 d message s =
     (let normalized = normalizeMessage message in
      case getCacheKey sha256 d normalized of
        Inl e \<Rightarrow> (Inl e, s)
      | Inr key \<Rightarrow>
          (case cache_has (cache d) key s of
             (Inl e, s1) \<Rightarrow> (Inr False, s1)
           | (Inr exists, s1) \<Rightarrow>
               if exists then (Inr True, s1)
               else (case cache_set (cache d) key (ttl (options d)) s1 of
                       (Inl e, s2) \<Rightarrow> (Inr False, s2)
                     | (Inr u, s2) \<Rightarrow> (Inr False, s2))))"

definition removeFromCache :: "(string \<Rightarrow> string) \<Rightarrow> 's Deduplicator \<Rightarrow> jsval \<Rightarrow> 's \<Rightarrow> unit result \<times> 's" where
  "removeFromCache sha256 d message s =
     (let normalized = normalizeMessage message in
      case getCacheKey sha256 d normalized of
        Inl e \<Rightarrow> (Inl e, s)
      | Inr key \<Rightarrow>
          (case cache_delete (cache d) key s of
             (Inl e, s1) \<Rightarrow> (Inl e, s1)
           | (Inr u, s1) \<Rightarrow> (Inr (), s1)))"

definition clearCache :: "'s Deduplicator \<Rightarrow> 's \<Rightarrow> unit result \<times> 's" where
  "clearCache d s =
     (case cache_clear (cache d) of
        Some clear_fn \<Rightarrow>
          (case clear_fn s of
             (Inl e, s1) \<Rightarrow> (Inl e, s1)
           | (Inr u, s1) \<Rightarrow> (Inr (), s1))
      | None \<Rightarrow> (Inr (), s))"

text \<open>The two factories: a deduplicator over a fresh in-process cache, or over Redis.\<close>

definition createMemoryDeduplicator :: "DeduplicatorOptions \<Rightarrow> MemoryCache Deduplicator" where
  "createMemoryDeduplicator opts = \<lparr>cache = MemoryCache_backend, options = opts\<rparr>"

definition createRedisDeduplicator :: "'w RedisClient \<Rightarrow> DeduplicatorOptions \<Rightarrow> (RedisCache \<times> 'w) Deduplicator" where
  "createRedisDeduplicator client opts = \<lparr>cache = RedisCache_backend client, options = opts\<rparr>"

section \<open>Stand-ins for instantiating the theorems\<close>

text \<open>
  A digest to put in place of \<open>sha256\<close>, a backend whose every operation rejects, and
  the library's default options. They serve only to run the definitions on concrete
  inputs.
\<close>

definition stub_sha256 :: "string \<Rightarrow> string" where
  "stub_sha256 data = ''sha256('' @ data @ '')''"

definition broken_backend :: "error \<Rightarrow> 's Cache" where
  "broken_backend e =
     \<lparr>cache_has = (\<lambda>key s. (Inl e, s)),
      cache_set = (\<lambda>key t s. (Inl e, s)),
      cache_delete = (\<lambda>key s. (Inl e, s)),
      cache_clear = Some (\<lambda>s. (Inl e, s))\<rparr>"

definition default_options :: DeduplicatorOptions where
  "default_options = \<lparr>ttl = 300, namespace = ''ts-dedup'', debug = False\<rparr>"

section \<open>Evaluation on concrete inputs\<close>

text \<open>The defining equations that evaluate each part of the model, grouped for \<open>simp\<close>.\<close>

lemmas value_defs = set_property_def is_array_index_def is_digit_def digit_char_def
  digit_value_def decimal_value_def show_int_def hex_digit_def escape_char_def quote_def

lemmas memory_defs = getNamespacedKey_def createMemoryCache_def setTimeout_def clearTimeout_def
  memory_delete_def memory_has_def memory_set_def memory_clear_def MemoryCache_backend_def
  history_def Let_def

lemmas redis_defs = getKey_def redis_has_def redis_set_def redis_delete_def on_data_def
  clearWithCount_def redis_clear_def disconnect_def RedisCache_backend_def new_RedisCache_def
  drop_trailing_colon_def BaseCache_options_def on_connect_def on_end_def Let_def

lemmas stub_defs = stub_client_def closed_error_def matches_def stub_sha256_def
  broken_backend_def default_options_def

section \<open>The in-process backend keeps store and timers consistent\<close>



lemma options_memory_delete [simp]: "m_options (memory_delete key s) = m_options s"
  by (simp add: memory_delete_def clearTimeout_def Let_def split: option.splits)

lemma now_memory_delete [simp]: "now (memory_delete key s) = now s"
  by (simp add: memory_delete_def clearTimeout_def Let_def split: option.splits)

lemma next_timer_memory_delete [simp]: "next_timer (memory_delete key s) = next_timer s"
  by (simp add: memory_delete_def clearTimeout_def Let_def split: option.splits)







lemma fold_clearTimeout:
  "fold (\<lambda>entry. clearTimeout (timeout entry)) es s
     = s\<lparr>timers := filter (\<lambda>p. fst p \<notin> timeout ` set es) (timers s)\<rparr>"
proof (induction es arbitrary: s)
  case Nil
  then show ?case by simp
next
  case (Cons e es)
  have "filter (\<lambda>p. fst p \<notin> timeout ` set es) (AList.delete (timeout e) (timers s))
      = filter (\<lambda>p. fst p \<notin> timeout ` set (e # es)) (timers s)"
    by (auto simp: AList.delete_eq intro: filter_cong)
  with Cons show ?case by (simp add: clearTimeout_def)
qed





lemma map_of_memory_set:
  "map_of (m_cache (memory_set key t s)) (getNamespacedKey (m_options s) key)
     = Some \<lparr>expires = now s + t * 1000, timeout = next_timer s\<rparr>"
  by (simp add: memory_set_def memory_delete_def setTimeout_def clearTimeout_def Let_def
      update_conv' split: option.splits)

lemma options_perform [simp]: "m_options (perform a s) = m_options s"
proof (cases a)
  case (Runtime ev)
  then show ?thesis by (cases ev) (auto split: option.splits)
qed (simp_all add: memory_has_def memory_set_def memory_clear_def setTimeout_def
      fold_clearTimeout Let_def split: option.splits prod.splits)

lemma options_history [simp]: "m_options (history acts s) = m_options s"
  unfolding history_def by (induction acts arbitrary: s) simp_all


lemma options_has [simp]: "m_options (snd (memory_has key s)) = m_options s"
  using options_perform [of "Has key" s] by simp

lemma getNamespacedKey_inj [simp]:
  "getNamespacedKey o1 k = getNamespacedKey o1 k' \<longleftrightarrow> k = k'"
  by (simp add: getNamespacedKey_def)






section \<open>Duplicate detection within the TTL window\<close>



section \<open>What the backends' \<open>set\<close> reports\<close>

text \<open>
  Claim C2 says that the networked backend's \<open>set\<close> raises whenever the connection is
  down. The code returns early instead: with the connection flag cleared (the transport
  has reported \<^verbatim>\<open>end\<close>) a call with a valid key and TTL resolves normally and issues
  no command.
\<close>

theorem redis_set_disconnected_counterexample:
  "redis_set stub_client ''ts-dedup:k'' (Some 300)
      (on_end (new_RedisCache None None None), \<lparr>stored = [], up = False\<rparr>)
   = (Inr (), on_end (new_RedisCache None None None), \<lparr>stored = [], up = False\<rparr>)"
  by (simp add: redis_defs)

text \<open>
  Claim C2, as the code has it. For every non-empty key and every TTL above zero: while
  the connection flag is set, \<open>set\<close> issues the one command
  \<^verbatim>\<open>SET key '1' EX max(1, floor(ttl))\<close>, raises the client's error when that write
  fails and resolves only when it succeeded; while the flag is cleared, \<open>set\<close> resolves
  without issuing any command, so the insert is skipped silently.
\<close>

theorem redis_set_raises_only_while_connected:
  "key \<noteq> [] \<and> 0 < t \<Longrightarrow>
   (isConnected rc \<and>
      cmd_set client (collapse_colons (prefix rc @ key)) ''1'' (max 1 \<lfloor>t\<rfloor>) w = (Inl e, w')
      \<longrightarrow> redis_set client key (Some t) (rc, w) = (Inl e, rc, w')) \<and>
   (isConnected rc \<and>
      cmd_set client (collapse_colons (prefix rc @ key)) ''1'' (max 1 \<lfloor>t\<rfloor>) w = (Inr (), w')
      \<longrightarrow> redis_set client key (Some t) (rc, w) = (Inr (), rc, w')) \<and>
   (\<not> isConnected rc \<longrightarrow> redis_set client key (Some t) (rc, w) = (Inr (), rc, w))"
  by (simp add: redis_set_def getKey_def Let_def)

theorem redis_set_raises_only_while_connected_witness:
  "''k'' \<noteq> [] \<and> (0::rat) < 300 \<and>
   isConnected (new_RedisCache None None None) \<and>
   cmd_set stub_client (collapse_colons (prefix (new_RedisCache None None None) @ ''k'')) ''1''
      (max 1 \<lfloor>300::rat\<rfloor>) \<lparr>stored = [], up = False\<rparr>
     = (Inl closed_error, \<lparr>stored = [], up = False\<rparr>) \<and>
   redis_set stub_client ''k'' (Some 300) (new_RedisCache None None None, \<lparr>stored = [], up = False\<rparr>)
     = (Inl closed_error, new_RedisCache None None None, \<lparr>stored = [], up = False\<rparr>) \<and>
   cmd_set stub_client (collapse_colons (prefix (new_RedisCache None None None) @ ''k'')) ''1''
      (max 1 \<lfloor>300::rat\<rfloor>) \<lparr>stored = [], up = True\<rparr>
     = (Inr (), \<lparr>stored = [(''ts-dedup:k'', 300)], up = True\<rparr>) \<and>
   redis_set stub_client ''k'' (Some 300) (new_RedisCache None None None, \<lparr>stored = [], up = True\<rparr>)
     = (Inr (), new_RedisCache None None None, \<lparr>stored = [(''ts-dedup:k'', 300)], up = True\<rparr>) \<and>
   \<not> isConnected (on_end (new_RedisCache None None None)) \<and>
   redis_set stub_client ''k'' (Some 300)
      (on_end (new_RedisCache None None None), \<lparr>stored = [], up = True\<rparr>)
     = (Inr (), on_end (new_RedisCache None None None), \<lparr>stored = [], up = True\<rparr>)"
proof -
  let ?rc = "new_RedisCache None None None"
  have p: "''k'' \<noteq> [] \<and> (0::rat) < 300" by simp
  have c: "isConnected ?rc"
    by (simp add: redis_defs)
  have n: "\<not> isConnected (on_end ?rc)"
    by (simp add: on_end_def)
  have w: "cmd_set stub_client (collapse_colons (prefix ?rc @ ''k'')) ''1''
      (max 1 \<lfloor>300::rat\<rfloor>) \<lparr>stored = [], up = False\<rparr>
     = (Inl closed_error, \<lparr>stored = [], up = False\<rparr>)"
    by (simp add: stub_client_def)
  have g: "cmd_set stub_client (collapse_colons (prefix ?rc @ ''k'')) ''1''
      (max 1 \<lfloor>300::rat\<rfloor>) \<lparr>stored = [], up = True\<rparr>
     = (Inr (), \<lparr>stored = [(''ts-dedup:k'', 300)], up = True\<rparr>)"
    by (simp add: stub_client_def redis_defs)
  note r1 = redis_set_raises_only_while_connected [OF p, THEN conjunct1, THEN mp, OF conjI [OF c w]]
  note r2 = redis_set_raises_only_while_connected
    [OF p, THEN conjunct2, THEN conjunct1, THEN mp, OF conjI [OF c g]]
  note r3 = redis_set_raises_only_while_connected
    [OF p, THEN conjunct2, THEN conjunct2, THEN mp, OF n,
      of stub_client "\<lparr>stored = [], up = True\<rparr>"]
  show ?thesis
    using p c w r1 g r2 n r3 by (intro conjI) (assumption | simp)+
qed

text \<open>
  Claim C3 says that both backends reject an empty key and a TTL of zero or less. The
  in-process backend checks neither: \<open>set\<close> of the empty key with TTL 0 resolves and
  creates an entry.
\<close>

theorem memory_set_unvalidated_counterexample:
  "fst (cache_set MemoryCache_backend [] 0 (createMemoryCache default_options 0)) = Inr () \<and>
   map_of (m_cache (snd (cache_set MemoryCache_backend [] 0 (createMemoryCache default_options 0))))
      ''ts-dedup:'' = Some \<lparr>expires = 0, timeout = 0\<rparr>"
  by (simp add: memory_defs default_options_def)

text \<open>
  Claim C3, as the code has it. Whenever the key is empty or the TTL is zero or less, the
  networked backend's \<open>set\<close> fails (\<^verbatim>\<open>Cache key cannot be empty\<close>, else
  \<^verbatim>\<open>TTL must be greater than 0\<close>) before any command is issued, leaving backend and
  server as they were: no entry is created or replaced. The in-process backend's
  \<open>set\<close> validates nothing: for the same arguments it resolves and creates or replaces
  the entry, with expiry \<open>now + ttl * 1000\<close>.
\<close>

theorem set_validation_by_backend:
  "key = [] \<or> t \<le> 0 \<Longrightarrow>
   redis_set client key (Some t) (rc, w)
     = (Inl (Error (if key = [] then ''Cache key cannot be empty'' else ''TTL must be greater than 0'')),
        rc, w) \<and>
   cache_set (RedisCache_backend client) key t (rc, w) = redis_set client key (Some t) (rc, w) \<and>
   cache_set MemoryCache_backend key t s = (Inr (), memory_set key t s) \<and>
   map_of (m_cache (memory_set key t s)) (getNamespacedKey (m_options s) key)
     = Some \<lparr>expires = now s + t * 1000, timeout = next_timer s\<rparr>"
  by (auto simp: redis_set_def RedisCache_backend_def MemoryCache_backend_def map_of_memory_set)

theorem set_validation_by_backend_witness:
  "((''k'' :: string) = [] \<or> (0::rat) \<le> 0) \<and>
   redis_set stub_client ''k'' (Some 0) (new_RedisCache None None None, \<lparr>stored = [], up = True\<rparr>)
     = (Inl (Error ''TTL must be greater than 0''),
        new_RedisCache None None None, \<lparr>stored = [], up = True\<rparr>) \<and>
   cache_set MemoryCache_backend ''k'' 0 (createMemoryCache default_options 5)
     = (Inr (), memory_set ''k'' 0 (createMemoryCache default_options 5)) \<and>
   map_of (m_cache (memory_set ''k'' 0 (createMemoryCache default_options 5))) ''ts-dedup:k''
     = Some \<lparr>expires = 5, timeout = 0\<rparr>"
proof -
  have p: "(''k'' :: string) = [] \<or> (0::rat) \<le> 0" by simp
  note r = set_validation_by_backend [OF p, of stub_client "new_RedisCache None None None"
      "\<lparr>stored = [], up = True\<rparr>" "createMemoryCache default_options 5"]
  show ?thesis
    using p r by (simp add: getNamespacedKey_def createMemoryCache_def default_options_def)
qed

section \<open>The deduplicator's failure policy\<close>

text \<open>
  Claim C4. The fail-open boundary of \<open>isDuplicate\<close> covers exactly the existence check
  and the insert. For every digest, deduplicator, message and backend state:
  an error thrown while the cache key is derived (the error \<open>hashMessage\<close> throws) leaves
  \<open>isDuplicate\<close> as it is, with the backend untouched; an error the backend raises
  in \<open>has\<close> is caught and the result is \<open>false\<close>; an error it raises in the \<open>set\<close>
  that follows an absent key is caught and the result is \<open>false\<close>; and no other error
  ever leaves \<open>isDuplicate\<close>: whenever it throws, key derivation threw that very error.
\<close>

theorem isDuplicate_fail_open_boundary:
  "(getCacheKey sha256 d (normalizeMessage m) = Inl e \<longrightarrow> isDuplicate sha256 d m s = (Inl e, s)) \<and>
   (getCacheKey sha256 d (normalizeMessage m) = Inr key \<and> cache_has (cache d) key s = (Inl e, s1)
      \<longrightarrow> isDuplicate sha256 d m s = (Inr False, s1)) \<and>
   (getCacheKey sha256 d (normalizeMessage m) = Inr key \<and> cache_has (cache d) key s = (Inr False, s1)
      \<and> cache_set (cache d) key (ttl (options d)) s1 = (Inl e, s2)
      \<longrightarrow> isDuplicate sha256 d m s = (Inr False, s2)) \<and>
   (isDuplicate sha256 d m s = (Inl e, s') \<longrightarrow>
      getCacheKey sha256 d (normalizeMessage m) = Inl e \<and> s' = s)"
  by (auto simp: isDuplicate_def Let_def split: sum.splits prod.splits if_splits)

theorem isDuplicate_fail_open_boundary_witness:
  "getCacheKey stub_sha256 (createMemoryDeduplicator default_options) (normalizeMessage JUndefined)
     = Inl (Error ''Failed to hash message: Cannot hash undefined value'') \<and>
   isDuplicate stub_sha256 (createMemoryDeduplicator default_options) JUndefined
       (createMemoryCache default_options 0)
     = (Inl (Error ''Failed to hash message: Cannot hash undefined value''),
        createMemoryCache default_options 0) \<and>
   cache_has (cache \<lparr>cache = broken_backend closed_error, options = default_options\<rparr>)
       ''ts-dedup:k'' (0::nat) = (Inl closed_error, 0) \<and>
   isDuplicate stub_sha256 \<lparr>cache = broken_backend closed_error, options = default_options\<rparr>
       (JObj [(''payload'', JNum 1), (''deduplicationKey'', JStr ''k'')]) (0::nat)
     = (Inr False, 0) \<and>
   cache_set (cache (createRedisDeduplicator stub_client default_options)) ''ts-dedup:k''
       (ttl (options (createRedisDeduplicator stub_client default_options)))
       (new_RedisCache None None None, \<lparr>stored = [], up = False\<rparr>)
     = (Inl closed_error, new_RedisCache None None None, \<lparr>stored = [], up = False\<rparr>) \<and>
   isDuplicate stub_sha256 (createRedisDeduplicator stub_client default_options)
       (JObj [(''payload'', JNum 1), (''deduplicationKey'', JStr ''k'')])
       (new_RedisCache None None None, \<lparr>stored = [], up = False\<rparr>)
     = (Inr False, new_RedisCache None None None, \<lparr>stored = [], up = False\<rparr>)"
proof -
  let ?md = "createMemoryDeduplicator default_options"
  let ?bd = "\<lparr>cache = broken_backend closed_error, options = default_options\<rparr> :: nat Deduplicator"
  let ?rd = "createRedisDeduplicator stub_client default_options"
  let ?m = "JObj [(''payload'', JNum 1), (''deduplicationKey'', JStr ''k'')]"
  let ?st = "(new_RedisCache None None None, \<lparr>stored = [], up = False\<rparr>)"
  have k1: "getCacheKey stub_sha256 ?md (normalizeMessage JUndefined)
     = Inl (Error ''Failed to hash message: Cannot hash undefined value'')"
    by (simp add: normalizeMessage_def getCacheKey_def hashMessage_def hashJson_def)
  have k2: "getCacheKey stub_sha256 ?bd (normalizeMessage ?m) = Inr ''ts-dedup:k''"
    by (simp add: normalizeMessage_def getCacheKey_def default_options_def)
  have h2: "cache_has (cache ?bd) ''ts-dedup:k'' (0::nat) = (Inl closed_error, 0)"
    by (simp add: broken_backend_def)
  have k3: "getCacheKey stub_sha256 ?rd (normalizeMessage ?m) = Inr ''ts-dedup:k''"
    by (simp add: normalizeMessage_def getCacheKey_def createRedisDeduplicator_def default_options_def)
  have h3: "cache_has (cache ?rd) ''ts-dedup:k'' ?st = (Inr False, ?st)"
    by (simp add: createRedisDeduplicator_def redis_defs stub_defs)
  have s3: "cache_set (cache ?rd) ''ts-dedup:k'' (ttl (options ?rd)) ?st = (Inl closed_error, ?st)"
    by (simp add: createRedisDeduplicator_def redis_defs stub_defs)
  note r1 = isDuplicate_fail_open_boundary [THEN conjunct1, THEN mp, OF k1]
  note r2 = isDuplicate_fail_open_boundary
    [THEN conjunct2, THEN conjunct1, THEN mp, OF conjI [OF k2 h2]]
  note r3 = isDuplicate_fail_open_boundary
    [THEN conjunct2, THEN conjunct2, THEN conjunct1, THEN mp, OF conjI [OF k3 conjI [OF h3 s3]]]
  show ?thesis
    using k1 r1 h2 r2 s3 r3 by (intro conjI) assumption+
qed

section \<open>Canonical hashing\<close>

lemma size_map_of:
  "map_of fs k = Some v \<Longrightarrow> size v < Suc (size_list (size_prod (\<lambda>_. 0) size) fs)"
  by (induction fs) (auto split: if_splits)

lemma deep_equal_atom: "deep_equal a b \<Longrightarrow> \<not> is_container a \<Longrightarrow> a = b"
  by (cases a) auto

lemma deep_equal_container: "deep_equal a b \<Longrightarrow> is_container b = is_container a"
  by (cases a; cases b) auto

lemma container_tests:
  "is_container v \<Longrightarrow> truthy v \<and> typeof v = ''object'' \<and> \<not> isBuffer v \<and> \<not> instanceof_Date v
     \<and> v \<noteq> JNull \<and> v \<noteq> JUndefined"
  by (cases v) auto

lemma fields_within_lookup:
  "fields_within fs gs \<Longrightarrow> map_of fs k = Some v \<Longrightarrow> \<exists>w. map_of gs k = Some w \<and> deep_equal v w"
  by (induction fs) (auto split: if_splits option.splits)

lemma fields_within_keys: "fields_within fs gs \<Longrightarrow> fst ` set fs \<subseteq> fst ` set gs"
proof (induction fs)
  case Nil
  then show ?case by simp
next
  case (Cons f fs)
  obtain k v where f: "f = (k, v)" by (cases f)
  with Cons.prems obtain w where "map_of gs k = Some w"
    by (auto split: option.splits)
  then have "k \<in> fst ` set gs"
    by (force dest: map_of_SomeD)
  with Cons f show ?case by simp
qed

lemma same_keys:
  assumes "distinct (map fst fs)" "distinct (map fst gs)" "length fs = length gs"
    and "fields_within fs gs"
  shows "sort (map fst fs) = sort (map fst gs)"
proof -
  have sub: "set (map fst fs) \<subseteq> set (map fst gs)"
    using fields_within_keys [OF assms(4)] by simp
  have "card (set (map fst fs)) = card (set (map fst gs))"
    using distinct_card [OF assms(1)] distinct_card [OF assms(2)] assms(3) by simp
  with sub have "set (map fst fs) = set (map fst gs)"
    by (simp add: card_subset_eq)
  then show ?thesis
    using assms(1,2) by (intro sorted_distinct_set_unique) simp_all
qed

lemma normalize_loop_cong:
  assumes "\<And>k. k \<in> set keys \<Longrightarrow>
      deep_equal (get_property a k) (get_property b k)
      \<and> normalizeObject (get_property a k) = normalizeObject (get_property b k)"
  shows "normalize_loop a keys acc = normalize_loop b keys acc"
  using assms
proof (induction keys arbitrary: acc)
  case Nil
  then show ?case by simp
next
  case (Cons key keys)
  let ?v = "get_property a key" and ?w = "get_property b key"
  have eq: "deep_equal ?v ?w" and norm: "normalizeObject ?v = normalizeObject ?w"
    using Cons.prems [of key] by simp_all
  have rest: "\<And>acc. normalize_loop a keys acc = normalize_loop b keys acc"
    using Cons.IH Cons.prems by simp
  show ?case
  proof (cases "is_container ?v")
    case True
    then have "is_container ?w"
      using deep_equal_container [OF eq] by simp
    with True norm rest show ?thesis
      using container_tests [of ?v] container_tests [of ?w]
      by (simp add: Let_def cong: sum.case_cong)
  next
    case False
    then have "?v = ?w"
      using deep_equal_atom [OF eq] by simp
    with rest show ?thesis
      by (simp add: Let_def cong: sum.case_cong jsval.case_cong option.case_cong)
  qed
qed

lemma normalize_map_cong:
  assumes "deep_equal_items xs ys"
    and "\<And>x y. x \<in> set xs \<Longrightarrow> deep_equal x y \<Longrightarrow> normalizeObject x = normalizeObject y"
  shows "normalize_map xs = normalize_map ys"
  using assms
proof (induction xs arbitrary: ys)
  case Nil
  then show ?case by (cases ys) simp_all
next
  case (Cons x xs)
  then obtain y ys' where ys: "ys = y # ys'" by (cases ys) auto
  with Cons.prems(1) have xy: "deep_equal x y" and r: "deep_equal_items xs ys'" by simp_all
  have "normalizeObject x = normalizeObject y"
    using Cons.prems(2) [of x y] xy by simp
  moreover have "normalize_map xs = normalize_map ys'"
    using Cons.IH [OF r] Cons.prems(2) by simp
  ultimately show ?case using ys by (simp split: sum.splits)
qed

lemma fields_loop_cong:
  assumes fw: "fields_within fs gs"
    and obj: "(a = JObj fs \<and> b = JObj gs) \<or> (a = JProto fs out \<and> b = JProto gs out)"
    and ih: "\<And>v w. size v < size a \<Longrightarrow> deep_equal v w \<Longrightarrow> normalizeObject v = normalizeObject w"
  shows "normalize_loop a (sort (map fst fs)) [] = normalize_loop b (sort (map fst fs)) []"
proof (rule normalize_loop_cong)
  fix k assume "k \<in> set (sort (map fst fs))"
  then have "k \<in> fst ` set fs" by simp
  then obtain v where v: "map_of fs k = Some v"
    by (auto dest: weak_map_of_SomeI)
  with fw obtain w where w: "map_of gs k = Some w" and vw: "deep_equal v w"
    using fields_within_lookup by blast
  have "size v < size a"
    using size_map_of [OF v] obj by auto
  then have "normalizeObject v = normalizeObject w"
    using vw by (rule ih)
  with v w vw obj
  show "deep_equal (get_property a k) (get_property b k)
      \<and> normalizeObject (get_property a k) = normalizeObject (get_property b k)"
    by auto
qed

lemma normalizeObject_deep_equal:
  "deep_equal a b \<Longrightarrow> normalizeObject a = normalizeObject b"
proof (induction a arbitrary: b rule: measure_induct_rule [where f = size])
  case (less a)
  have ih: "normalizeObject v = normalizeObject w" if "size v < size a" "deep_equal v w" for v w
    using less.IH [OF that] .
  show ?case
  proof (cases a)
    case (JArr xs)
    with less.prems obtain ys where b: "b = JArr ys" and items: "deep_equal_items xs ys"
      by (cases b) auto
    have "normalize_map xs = normalize_map ys"
    proof (rule normalize_map_cong [OF items])
      fix x y assume "x \<in> set xs" and xy: "deep_equal x y"
      then have "size x < size a"
        using JArr size_list_estimation' [of x xs "size x" size] by simp
      then show "normalizeObject x = normalizeObject y"
        using xy by (rule ih)
    qed
    with JArr b show ?thesis by (simp add: normalizeObject.simps)
  next
    case (JObj fs)
    with less.prems obtain gs where b: "b = JObj gs"
      and d: "distinct (map fst fs)" "distinct (map fst gs)" "length fs = length gs"
      and fw: "fields_within fs gs"
      by (cases b) auto
    have "normalize_loop a (sort (map fst fs)) [] = normalize_loop b (sort (map fst fs)) []"
      by (rule fields_loop_cong [OF fw _ ih]) (use JObj b in simp_all)
    with same_keys [OF d fw] JObj b show ?thesis
      by (simp add: normalizeObject.simps)
  next
    case (JProto fs out)
    with less.prems obtain gs where b: "b = JProto gs out"
      and d: "distinct (map fst fs)" "distinct (map fst gs)" "length fs = length gs"
      and fw: "fields_within fs gs"
      by (cases b) auto
    have "normalize_loop a (sort (map fst fs)) [] = normalize_loop b (sort (map fst fs)) []"
      by (rule fields_loop_cong [OF fw _ ih]) (use JProto b in simp_all)
    with same_keys [OF d fw] JProto b show ?thesis
      by (simp add: normalizeObject.simps)
  qed (use less.prems in auto)
qed

text \<open>
  Claim C5. \<open>hashJson\<close> is a function of the payload and the digest alone, and two
  payloads that are deeply equal up to the order of object fields, at any nesting level,
  have the same hash (or fail with the same error), for every digest function.
\<close>

theorem hashJson_field_order_independent:
  "deep_equal p1 p2 \<Longrightarrow>
   hashJson sha256 p1 = hashJson sha256 p2 \<and>
   hashMessage sha256 p1 (JStr ''json'') = hashMessage sha256 p2 (JStr ''json'')"
proof -
  assume eq: "deep_equal p1 p2"
  have "hashJson sha256 p1 = hashJson sha256 p2"
  proof (cases "is_container p1")
    case True
    then have "is_container p2"
      using deep_equal_container [OF eq] by simp
    with True normalizeObject_deep_equal [OF eq] show ?thesis
      using container_tests [of p1] container_tests [of p2] by (simp add: hashJson_def)
  next
    case False
    with eq have "p1 = p2" by (rule deep_equal_atom)
    then show ?thesis by simp
  qed
  then show ?thesis by (simp add: hashMessage_def)
qed

theorem hashJson_field_order_independent_witness:
  "deep_equal
     (JObj [(''id'', JStr ''1''), (''tags'', JArr [JObj [(''x'', JNull), (''y'', JNum 2)]])])
     (JObj [(''tags'', JArr [JObj [(''y'', JNum 2), (''x'', JNull)]]), (''id'', JStr ''1'')]) \<and>
   hashJson stub_sha256
     (JObj [(''id'', JStr ''1''), (''tags'', JArr [JObj [(''x'', JNull), (''y'', JNum 2)]])])
   = hashJson stub_sha256
     (JObj [(''tags'', JArr [JObj [(''y'', JNum 2), (''x'', JNull)]]), (''id'', JStr ''1'')]) \<and>
   hashJson stub_sha256
     (JObj [(''tags'', JArr [JObj [(''y'', JNum 2), (''x'', JNull)]]), (''id'', JStr ''1'')])
   = Inr (stub_sha256 (''{'' @ quote ''id'' @ '':'' @ quote ''1'' @ '','' @ quote ''tags'' @ '':[{''
        @ quote ''x'' @ '':null,'' @ quote ''y'' @ '':2}]}''))"
proof -
  have d: "deep_equal
     (JObj [(''id'', JStr ''1''), (''tags'', JArr [JObj [(''x'', JNull), (''y'', JNum 2)]])])
     (JObj [(''tags'', JArr [JObj [(''y'', JNum 2), (''x'', JNull)]]), (''id'', JStr ''1'')])"
    by simp
  have v: "hashJson stub_sha256
     (JObj [(''tags'', JArr [JObj [(''y'', JNum 2), (''x'', JNull)]]), (''id'', JStr ''1'')])
   = Inr (stub_sha256 (''{'' @ quote ''id'' @ '':'' @ quote ''1'' @ '','' @ quote ''tags'' @ '':[{''
        @ quote ''x'' @ '':null,'' @ quote ''y'' @ '':2}]}''))"
    by (simp add: hashJson_def sha256_of_def normalizeObject.simps value_defs)
  note r = hashJson_field_order_independent [OF d, of stub_sha256, THEN conjunct1]
  from d r v show ?thesis by (intro conjI) assumption+
qed

text \<open>
  Claim C6 says that canonicalization replaces every date by its ISO-8601 text and passes
  every byte buffer through, at every nesting level, the top level and array elements
  included. \<open>normalizeObject\<close> does so only for a value that is a property of an object:
  the conversion and the buffer test sit inside the loop over an object's keys. A date at
  the top level or as an array element is handled as an object without own keys and
  becomes \<^verbatim>\<open>{}\<close>, whatever its time value; a buffer there is copied index by index into
  a plain object. The theorem evaluates the code on such inputs, and on a date and a
  buffer held in an object field for comparison.
\<close>

theorem dates_outside_object_fields_hash_as_empty_object:
  "normalizeObject (JDate d txt) = Inr (JObj []) \<and>
   hashJson sha256 (JDate d txt) = Inr (sha256 ''{}'') \<and>
   normalizeObject (JArr [JDate d txt]) = Inr (JArr [JObj []]) \<and>
   hashJson sha256 (JArr [JDate d txt]) = Inr (sha256 ''[{}]'') \<and>
   hashJson sha256 (JObj [(''at'', JDate (Some ''1970-01-01T00:00:00.000Z'') txt)])
     = Inr (sha256 (''{'' @ quote ''at'' @ '':'' @ quote ''1970-01-01T00:00:00.000Z'' @ ''}'')) \<and>
   normalizeObject (JBuffer ''ab'') = Inr (JObj [(''0'', JNum 97), (''1'', JNum 98)]) \<and>
   normalizeObject (JArr [JBuffer ''ab'']) = Inr (JArr [JObj [(''0'', JNum 97), (''1'', JNum 98)]]) \<and>
   normalizeObject (JObj [(''b'', JBuffer ''ab'')]) = Inr (JObj [(''b'', JBuffer ''ab'')])"
  by (simp add: hashJson_def sha256_of_def normalizeObject.simps value_defs)

section \<open>Administrative operations\<close>

text \<open>
  Claim C7 says that a failure while clearing the networked cache is swallowed nowhere
  between the wire and the caller. \<open>RedisCache.clear\<close> catches it: with the server
  unreachable the scan fails, and \<open>clearCache\<close> still resolves.
\<close>

theorem redis_clear_swallows_counterexample:
  "cmd_scanStream stub_client (prefix (new_RedisCache None None None) @ ''*'') 100
      \<lparr>stored = [(''ts-dedup:a'', 300)], up = False\<rparr>
     = (([], Some closed_error), \<lparr>stored = [(''ts-dedup:a'', 300)], up = False\<rparr>) \<and>
   clearCache (createRedisDeduplicator stub_client default_options)
      (new_RedisCache None None None, \<lparr>stored = [(''ts-dedup:a'', 300)], up = False\<rparr>)
     = (Inr (), new_RedisCache None None None, \<lparr>stored = [(''ts-dedup:a'', 300)], up = False\<rparr>)"
  by (simp add: clearCache_def createRedisDeduplicator_def redis_defs stub_defs)

lemma redis_clear_never_raises: "fst (redis_clear client st) = Inr ()"
  by (simp add: redis_clear_def split: prod.splits sum.splits)

lemma redis_delete_never_raises: "fst (redis_delete client key st) = Inr ()"
  by (simp add: redis_delete_def split: prod.splits sum.splits)

text \<open>
  Claim C7, as the code has it. An error that the backend's \<open>delete\<close> or \<open>clear\<close>
  raises propagates unchanged from \<open>removeFromCache\<close> and \<open>clearCache\<close>: these are not
  fail-open. The networked backend's own \<open>delete\<close> and \<open>clear\<close>, however, never raise:
  they catch every wire failure (and do nothing while the connection flag is cleared).
  So \<open>clearCache\<close> over the networked backend always resolves, and
  \<open>removeFromCache\<close> over it throws only what key derivation throws.
\<close>

theorem administrative_errors_propagate_from_backend:
  "(getCacheKey sha256 d (normalizeMessage m) = Inr key \<and> cache_delete (cache d) key s = (Inl e, s1)
      \<longrightarrow> removeFromCache sha256 d m s = (Inl e, s1)) \<and>
   (cache_clear (cache d) = Some clear_fn \<and> clear_fn s = (Inl e, s1)
      \<longrightarrow> clearCache d s = (Inl e, s1)) \<and>
   fst (redis_delete client key' st) = Inr () \<and>
   fst (redis_clear client st) = Inr () \<and>
   fst (clearCache (createRedisDeduplicator client opts) st) = Inr () \<and>
   (removeFromCache sha256 (createRedisDeduplicator client opts) m st = (Inl e, st')
      \<longrightarrow> getCacheKey sha256 (createRedisDeduplicator client opts) (normalizeMessage m) = Inl e)"
proof -
  have c: "fst (clearCache (createRedisDeduplicator client opts) st) = Inr ()"
    using redis_clear_never_raises [of client st]
    by (cases "redis_clear client st")
      (auto simp: clearCache_def createRedisDeduplicator_def RedisCache_backend_def)
  have r: "removeFromCache sha256 (createRedisDeduplicator client opts) m st = (Inl e, st')
      \<longrightarrow> getCacheKey sha256 (createRedisDeduplicator client opts) (normalizeMessage m) = Inl e"
  proof
    assume a: "removeFromCache sha256 (createRedisDeduplicator client opts) m st = (Inl e, st')"
    show "getCacheKey sha256 (createRedisDeduplicator client opts) (normalizeMessage m) = Inl e"
    proof (cases "getCacheKey sha256 (createRedisDeduplicator client opts) (normalizeMessage m)")
      case (Inl x)
      with a show ?thesis by (simp add: removeFromCache_def)
    next
      case (Inr k)
      with a redis_delete_never_raises [of client k st] show ?thesis
        by (cases "redis_delete client k st")
          (auto simp: removeFromCache_def createRedisDeduplicator_def RedisCache_backend_def)
    qed
  qed
  show ?thesis
    using c r redis_delete_never_raises [of client key' st] redis_clear_never_raises [of client st]
    by (auto simp: removeFromCache_def clearCache_def)
qed

theorem administrative_errors_propagate_from_backend_witness:
  "getCacheKey stub_sha256
      (\<lparr>cache = broken_backend closed_error, options = default_options\<rparr> :: nat Deduplicator)
      (normalizeMessage (JStr ''a'')) = Inr (''ts-dedup:'' @ stub_sha256 (quote ''a'')) \<and>
   cache_delete (cache \<lparr>cache = broken_backend closed_error, options = default_options\<rparr>)
      (''ts-dedup:'' @ stub_sha256 (quote ''a'')) (0::nat) = (Inl closed_error, 0) \<and>
   removeFromCache stub_sha256 \<lparr>cache = broken_backend closed_error, options = default_options\<rparr>
      (JStr ''a'') (0::nat) = (Inl closed_error, 0) \<and>
   cache_clear (cache \<lparr>cache = broken_backend closed_error, options = default_options\<rparr>)
     = Some (\<lambda>s::nat. (Inl closed_error, s)) \<and>
   clearCache \<lparr>cache = broken_backend closed_error, options = default_options\<rparr> (0::nat)
     = (Inl closed_error, 0) \<and>
   removeFromCache stub_sha256 (createRedisDeduplicator stub_client default_options) JUndefined
      (new_RedisCache None None None, \<lparr>stored = [], up = False\<rparr>)
     = (Inl (Error ''Failed to hash message: Cannot hash undefined value''),
        new_RedisCache None None None, \<lparr>stored = [], up = False\<rparr>) \<and>
   getCacheKey stub_sha256 (createRedisDeduplicator stub_client default_options)
      (normalizeMessage JUndefined)
     = Inl (Error ''Failed to hash message: Cannot hash undefined value'')"
proof -
  let ?bd = "\<lparr>cache = broken_backend closed_error, options = default_options\<rparr> :: nat Deduplicator"
  let ?rd = "createRedisDeduplicator stub_client default_options"
  let ?st = "(new_RedisCache None None None, \<lparr>stored = [], up = False\<rparr>)"
  have k: "getCacheKey stub_sha256 ?bd (normalizeMessage (JStr ''a''))
      = Inr (''ts-dedup:'' @ stub_sha256 (quote ''a''))"
    by (simp add: normalizeMessage_def getCacheKey_def hashMessage_def hashJson_def sha256_of_def
        default_options_def)
  have d: "cache_delete (cache ?bd) (''ts-dedup:'' @ stub_sha256 (quote ''a'')) (0::nat)
      = (Inl closed_error, 0)"
    by (simp add: broken_backend_def)
  have c: "cache_clear (cache ?bd) = Some (\<lambda>s::nat. (Inl closed_error, s))"
    by (simp add: broken_backend_def)
  have c0: "(\<lambda>s::nat. (Inl closed_error, s)) 0 = (Inl closed_error :: unit result, 0::nat)"
    by simp
  have u: "removeFromCache stub_sha256 ?rd JUndefined ?st
     = (Inl (Error ''Failed to hash message: Cannot hash undefined value''), ?st)"
    by (simp add: removeFromCache_def normalizeMessage_def getCacheKey_def hashMessage_def
        hashJson_def)
  note r1 = administrative_errors_propagate_from_backend [THEN conjunct1, THEN mp, OF conjI [OF k d]]
  note r2 = administrative_errors_propagate_from_backend
    [THEN conjunct2, THEN conjunct1, THEN mp, OF conjI [OF c c0]]
  note r3 = administrative_errors_propagate_from_backend
    [THEN conjunct2, THEN conjunct2, THEN conjunct2, THEN conjunct2, THEN conjunct2, THEN mp, OF u]
  show ?thesis
    using k d r1 c r2 u r3 by (intro conjI) assumption+
qed

section \<open>Clearing the in-process backend\<close>




section \<open>A duplicate refreshes nothing\<close>

text \<open>
  Claim C9. When \<open>isDuplicate\<close> finds the derived key present it returns \<open>true\<close> and
  mutates nothing. For every backend, the state it leaves is the state \<open>has\<close> alone
  leaves: no \<open>set\<close> follows. With the in-process backend the whole state is unchanged
  (the entry with its expiry deadline, the pending timers, the clock); with the networked
  backend the only command issued is the one \<open>EXISTS\<close> of \<open>has\<close>.
\<close>

theorem isDuplicate_present_is_read_only:
  "(getCacheKey sha256 d (normalizeMessage m) = Inr key \<and> cache_has (cache d) key s = (Inr True, s1)
      \<longrightarrow> isDuplicate sha256 d m s = (Inr True, s1)) \<and>
   (getCacheKey sha256 (createMemoryDeduplicator opts) (normalizeMessage m) = Inr key
      \<and> fst (memory_has key ms)
      \<longrightarrow> isDuplicate sha256 (createMemoryDeduplicator opts) m ms = (Inr True, ms)) \<and>
   (getCacheKey sha256 (createRedisDeduplicator client opts) (normalizeMessage m) = Inr key
      \<and> fst (redis_has client key (rc, w))
      \<longrightarrow> isDuplicate sha256 (createRedisDeduplicator client opts) m (rc, w)
            = (Inr True, rc, snd (cmd_exists client (collapse_colons (prefix rc @ key)) w)))"
proof (intro conjI impI)
  assume "getCacheKey sha256 d (normalizeMessage m) = Inr key \<and> cache_has (cache d) key s = (Inr True, s1)"
  then show "isDuplicate sha256 d m s = (Inr True, s1)"
    by (simp add: isDuplicate_def)
next
  assume a: "getCacheKey sha256 (createMemoryDeduplicator opts) (normalizeMessage m) = Inr key
      \<and> fst (memory_has key ms)"
  then have "memory_has key ms = (True, ms)"
    by (auto simp: memory_has_def Let_def split: option.splits if_splits)
  with a show "isDuplicate sha256 (createMemoryDeduplicator opts) m ms = (Inr True, ms)"
    by (simp add: isDuplicate_def createMemoryDeduplicator_def MemoryCache_backend_def)
next
  assume a: "getCacheKey sha256 (createRedisDeduplicator client opts) (normalizeMessage m) = Inr key
      \<and> fst (redis_has client key (rc, w))"
  then have "redis_has client key (rc, w)
      = (True, rc, snd (cmd_exists client (collapse_colons (prefix rc @ key)) w))"
    by (auto simp: redis_has_def getKey_def split: if_splits sum.splits prod.splits)
  with a show "isDuplicate sha256 (createRedisDeduplicator client opts) m (rc, w)
            = (Inr True, rc, snd (cmd_exists client (collapse_colons (prefix rc @ key)) w))"
    by (simp add: isDuplicate_def createRedisDeduplicator_def RedisCache_backend_def)
qed

theorem isDuplicate_present_is_read_only_witness:
  "getCacheKey stub_sha256 (createMemoryDeduplicator default_options)
      (normalizeMessage (JObj [(''payload'', JNum 1), (''deduplicationKey'', JStr ''k'')]))
     = Inr ''ts-dedup:k'' \<and>
   fst (memory_has ''ts-dedup:k'' (memory_set ''ts-dedup:k'' 300 (createMemoryCache default_options 0))) \<and>
   isDuplicate stub_sha256 (createMemoryDeduplicator default_options)
      (JObj [(''payload'', JNum 1), (''deduplicationKey'', JStr ''k'')])
      (memory_set ''ts-dedup:k'' 300 (createMemoryCache default_options 0))
     = (Inr True, memory_set ''ts-dedup:k'' 300 (createMemoryCache default_options 0)) \<and>
   expires (the (map_of (m_cache (memory_set ''ts-dedup:k'' 300 (createMemoryCache default_options 0)))
      ''ts-dedup:ts-dedup:k'')) = 300000 \<and>
   cache_has (cache (createMemoryDeduplicator default_options)) ''ts-dedup:k''
      (memory_set ''ts-dedup:k'' 300 (createMemoryCache default_options 0))
     = (Inr True, memory_set ''ts-dedup:k'' 300 (createMemoryCache default_options 0)) \<and>
   getCacheKey stub_sha256 (createRedisDeduplicator stub_client default_options)
      (normalizeMessage (JObj [(''payload'', JNum 1), (''deduplicationKey'', JStr ''k'')]))
     = Inr ''ts-dedup:k'' \<and>
   fst (redis_has stub_client ''ts-dedup:k''
      (new_RedisCache None None None, \<lparr>stored = [(''ts-dedup:ts-dedup:k'', 300)], up = True\<rparr>)) \<and>
   isDuplicate stub_sha256 (createRedisDeduplicator stub_client default_options)
      (JObj [(''payload'', JNum 1), (''deduplicationKey'', JStr ''k'')])
      (new_RedisCache None None None, \<lparr>stored = [(''ts-dedup:ts-dedup:k'', 300)], up = True\<rparr>)
     = (Inr True, new_RedisCache None None None,
        \<lparr>stored = [(''ts-dedup:ts-dedup:k'', 300)], up = True\<rparr>)"
proof -
  let ?m = "JObj [(''payload'', JNum 1), (''deduplicationKey'', JStr ''k'')]"
  let ?s = "memory_set ''ts-dedup:k'' 300 (createMemoryCache default_options 0)"
  let ?rc = "new_RedisCache None None None"
  let ?w = "\<lparr>stored = [(''ts-dedup:ts-dedup:k'', 300)], up = True\<rparr>"
  have k: "getCacheKey stub_sha256 (createMemoryDeduplicator default_options) (normalizeMessage ?m)
     = Inr ''ts-dedup:k''"
    by (simp add: normalizeMessage_def getCacheKey_def createMemoryDeduplicator_def default_options_def)
  have h: "fst (memory_has ''ts-dedup:k'' ?s)"
    by (simp add: memory_defs default_options_def)
  have e: "expires (the (map_of (m_cache ?s) ''ts-dedup:ts-dedup:k'')) = 300000"
    by (simp add: memory_defs default_options_def)
  have g: "cache_has (cache (createMemoryDeduplicator default_options)) ''ts-dedup:k'' ?s
     = (Inr True, ?s)"
    by (simp add: createMemoryDeduplicator_def memory_defs default_options_def)
  have k': "getCacheKey stub_sha256 (createRedisDeduplicator stub_client default_options)
      (normalizeMessage ?m) = Inr ''ts-dedup:k''"
    by (simp add: normalizeMessage_def getCacheKey_def createRedisDeduplicator_def default_options_def)
  have h': "fst (redis_has stub_client ''ts-dedup:k'' (?rc, ?w))"
    by (simp add: redis_defs stub_client_def)
  have x: "snd (cmd_exists stub_client (collapse_colons (prefix ?rc @ ''ts-dedup:k'')) ?w) = ?w"
    by (simp add: stub_client_def)
  note r1 = isDuplicate_present_is_read_only [THEN conjunct1, THEN mp, OF conjI [OF k g]]
  note r2 = isDuplicate_present_is_read_only
    [THEN conjunct2, THEN conjunct1, THEN mp, OF conjI [OF k h]]
  note r3 = isDuplicate_present_is_read_only
    [THEN conjunct2, THEN conjunct2, THEN mp, OF conjI [OF k' h'], unfolded x]
  show ?thesis
    using k h r2 e g k' h' r3 by (intro conjI) assumption+
qed

section \<open>Envelopes and raw payloads\<close>

text \<open>
  Claim C10 says that for every value \<open>x\<close>, \<open>isDuplicate(x)\<close> and
  \<open>isDuplicate({payload: x})\<close> derive the same cache key. When \<open>x\<close> is itself an object
  with a \<^verbatim>\<open>payload\<close> property it is taken for an envelope, and the two keys differ:
  for \<^verbatim>\<open>{payload: 1}\<close> the digest is taken of \<^verbatim>\<open>1\<close> in the first call and of
  \<^verbatim>\<open>{"payload":1}\<close> in the second; with a \<^verbatim>\<open>deduplicationKey\<close> the first key is
  not a digest at all; and for \<^verbatim>\<open>{payload: undefined}\<close> the first call throws where the
  second derives a key.
\<close>

theorem bare_and_wrapped_counterexample:
  "getCacheKey stub_sha256 (createMemoryDeduplicator default_options)
      (normalizeMessage (JObj [(''payload'', JNum 1)]))
     = Inr (''ts-dedup:'' @ stub_sha256 ''1'') \<and>
   getCacheKey stub_sha256 (createMemoryDeduplicator default_options)
      (normalizeMessage (JObj [(''payload'', JObj [(''payload'', JNum 1)])]))
     = Inr (''ts-dedup:'' @ stub_sha256 (''{'' @ quote ''payload'' @ '':1}'')) \<and>
   getCacheKey stub_sha256 (createMemoryDeduplicator default_options)
      (normalizeMessage (JObj [(''payload'', JNum 1)])) \<noteq>
   getCacheKey stub_sha256 (createMemoryDeduplicator default_options)
      (normalizeMessage (JObj [(''payload'', JObj [(''payload'', JNum 1)])])) \<and>
   getCacheKey stub_sha256 (createMemoryDeduplicator default_options)
      (normalizeMessage (JObj [(''payload'', JNum 1), (''deduplicationKey'', JStr ''k'')]))
     = Inr ''ts-dedup:k'' \<and>
   getCacheKey stub_sha256 (createMemoryDeduplicator default_options)
      (normalizeMessage (JObj [(''payload'', JUndefined)]))
     = Inl (Error ''Failed to hash message: Cannot hash undefined value'') \<and>
   getCacheKey stub_sha256 (createMemoryDeduplicator default_options)
      (normalizeMessage (JObj [(''payload'', JObj [(''payload'', JUndefined)])]))
     = Inr (''ts-dedup:'' @ stub_sha256 ''{}'')"
  by (simp add: normalizeMessage_def getCacheKey_def hashMessage_def hashJson_def sha256_of_def
      normalizeObject.simps createMemoryDeduplicator_def default_options_def stub_sha256_def
      value_defs)

text \<open>
  Claim C10, as the code has it. An object with a \<^verbatim>\<open>payload\<close> property is treated as a
  message envelope: its cache key depends only on its \<^verbatim>\<open>payload\<close>, \<^verbatim>\<open>format\<close> and
  \<^verbatim>\<open>deduplicationKey\<close> properties, so two such objects that agree on these three derive
  the same key and \<open>isDuplicate\<close> treats them alike. For every value \<open>x\<close> that is not
  such an object, \<open>isDuplicate(x)\<close> and \<open>isDuplicate({payload: x})\<close> derive the same cache
  key (or fail with the same error).
\<close>

theorem envelope_key_derivation:
  "(\<not> is_envelope x \<longrightarrow>
      getCacheKey sha256 d (normalizeMessage x)
        = getCacheKey sha256 d (normalizeMessage (JObj [(''payload'', x)]))) \<and>
   (is_envelope m1 \<and> is_envelope m2
      \<and> get_property m1 ''payload'' = get_property m2 ''payload''
      \<and> get_property m1 ''format'' = get_property m2 ''format''
      \<and> get_property m1 ''deduplicationKey'' = get_property m2 ''deduplicationKey''
      \<longrightarrow> getCacheKey sha256 d (normalizeMessage m1) = getCacheKey sha256 d (normalizeMessage m2)
        \<and> isDuplicate sha256 d m1 s = isDuplicate sha256 d m2 s)"
  by (auto simp: is_envelope_def normalizeMessage_def getCacheKey_def hashMessage_def isDuplicate_def)

theorem envelope_key_derivation_witness:
  "\<not> is_envelope (JObj [(''id'', JStr ''1'')]) \<and>
   getCacheKey stub_sha256 (createMemoryDeduplicator default_options)
      (normalizeMessage (JObj [(''id'', JStr ''1'')]))
     = getCacheKey stub_sha256 (createMemoryDeduplicator default_options)
        (normalizeMessage (JObj [(''payload'', JObj [(''id'', JStr ''1'')])])) \<and>
   is_envelope (JObj [(''payload'', JNum 1), (''traceId'', JStr ''a'')]) \<and>
   is_envelope (JObj [(''traceId'', JStr ''b''), (''payload'', JNum 1)]) \<and>
   isDuplicate stub_sha256 (createMemoryDeduplicator default_options)
      (JObj [(''payload'', JNum 1), (''traceId'', JStr ''a'')]) (createMemoryCache default_options 0)
     = isDuplicate stub_sha256 (createMemoryDeduplicator default_options)
        (JObj [(''traceId'', JStr ''b''), (''payload'', JNum 1)]) (createMemoryCache default_options 0)"
proof -
  let ?x = "JObj [(''id'', JStr ''1'')]"
  let ?m1 = "JObj [(''payload'', JNum 1), (''traceId'', JStr ''a'')]"
  let ?m2 = "JObj [(''traceId'', JStr ''b''), (''payload'', JNum 1)]"
  have x: "\<not> is_envelope ?x" by (simp add: is_envelope_def)
  have e1: "is_envelope ?m1" by (simp add: is_envelope_def)
  have e2: "is_envelope ?m2" by (simp add: is_envelope_def)
  have p: "get_property ?m1 ''payload'' = get_property ?m2 ''payload''" by simp
  have f: "get_property ?m1 ''format'' = get_property ?m2 ''format''" by simp
  have k: "get_property ?m1 ''deduplicationKey'' = get_property ?m2 ''deduplicationKey''" by simp
  note r1 = envelope_key_derivation [THEN conjunct1, THEN mp, OF x]
  note r2 = envelope_key_derivation [THEN conjunct2, THEN mp,
      OF conjI [OF e1 conjI [OF e2 conjI [OF p conjI [OF f k]]]], THEN conjunct2]
  show ?thesis
    using x r1 e1 e2 r2 by (intro conjI) assumption+
qed

end
